theory Spec2Isabelle
  imports Main "HOL-Library.Word" "HOL-Library.Monad_Syntax"
begin

unbundle bit_operations_syntax

section \<open>The APA102 LED driver (apa102.h, apa102.c)\<close>

subsection \<open>Data model\<close>

text \<open>An \<open>unsigned char\<close> of the AVR target: eight bits, no sign.\<close>

type_synonym u8 = "8 word"

text \<open>
  Modelled from the spec: the declaration of \<open>GFX_RGBA_Color\<close> lives in
  \<open>shared/gfx/color.h\<close>, which is not among the sources. The driver reads the members
  \<open>red\<close>, \<open>green\<close>, \<open>blue\<close> and \<open>alpha\<close>; the spec gives the colour as
  \<open>{red, green, blue, intensity}\<close> with the intensity "carried in the color's fourth
  field", and the README initialises one as
  \<open>{0x0F, 0xF0, 0xFF, APA102_MAX_INTENSITY}\<close>. The members are therefore declared in the
  order red, green, blue, alpha.
\<close>

record GFX_RGBA_Color =
  red :: u8
  green :: u8
  blue :: u8
  alpha :: u8

text \<open>
  Modelled from the spec: a C compound literal \<open>(GFX_RGBA_Color){a, b, c, d}\<close>
  initialises the members positionally, in the order of their declaration (see above).
\<close>

definition GFX_RGBA_Color_literal :: "u8 \<Rightarrow> u8 \<Rightarrow> u8 \<Rightarrow> u8 \<Rightarrow> GFX_RGBA_Color" where
  "GFX_RGBA_Color_literal a b c d = \<lparr>red = a, green = b, blue = c, alpha = d\<rparr>"

text \<open>
  The configuration macros of apa102.h. Each is guarded by \<open>#ifndef\<close>, so a build may
  override it; the record carries one build's choice. The two size macros are integer
  constants of the preprocessor (type \<open>int\<close>), the others are byte values handed to
  \<open>unsigned char\<close> parameters. \<open>APA102_POWER_SAVING_AVAILABLE\<close> is tested with
  \<open>#ifdef\<close> only.
\<close>

record config =
  APA102_NUMBER_OF_LEDS :: nat
  APA102_FRAME_SIZE :: nat
  APA102_START_FLAG :: u8
  APA102_SOF_VALUE :: u8
  APA102_EOF_VALUE :: u8
  APA102_MIN_INTENSITY :: u8
  APA102_MAX_INTENSITY :: u8
  APA102_POWER_SAVING_AVAILABLE :: bool
  APA102_ENABLE_FLAG :: u8
  APA102_SLEEP_FLAG :: u8

text \<open>The values apa102.h defines when the build overrides nothing.\<close>

definition default_config :: config where
  "default_config =
     \<lparr>APA102_NUMBER_OF_LEDS = 1,
      APA102_FRAME_SIZE = 4,
      APA102_START_FLAG = 0xE0,
      APA102_SOF_VALUE = 0x00,
      APA102_EOF_VALUE = 0xFF,
      APA102_MIN_INTENSITY = 0x01,
      APA102_MAX_INTENSITY = 0x1F,
      APA102_POWER_SAVING_AVAILABLE = False,
      APA102_ENABLE_FLAG = 0xE0,
      APA102_SLEEP_FLAG = 0xA0\<rparr>"

text \<open>\<open>enum APA102_Transmission_t\<close> and the value of each enumerator.\<close>

datatype APA102_Transmission = APA102_Transmission_SOF | APA102_Transmission_EOF

fun APA102_Transmission_value :: "config \<Rightarrow> APA102_Transmission \<Rightarrow> u8" where
  "APA102_Transmission_value cfg APA102_Transmission_SOF = APA102_SOF_VALUE cfg"
| "APA102_Transmission_value cfg APA102_Transmission_EOF = APA102_EOF_VALUE cfg"

subsection \<open>The bus\<close>

text \<open>
  Modelled from the spec: \<open>spi_transfer\<close> belongs to the platform's SPI layer
  (\<open>hal/.../spi/spi.h\<close>), outside the sources. The spec describes it as a blocking
  byte-out primitive whose result the driver never reads. The state of the bus is the
  list of bytes sent so far, oldest first; a transfer appends one byte.
\<close>

type_synonym bus = "u8 list"

definition spi_transfer :: "u8 \<Rightarrow> bus \<Rightarrow> bus" where
  "spi_transfer b s = s @ [b]"

subsection \<open>The counting loop\<close>

text \<open>
  Every loop of apa102.c has the shape
  \<^verbatim>\<open>for (unsigned char i=0; i < LIMIT; i++) { BODY }\<close>
  with \<open>LIMIT\<close> one of the two size macros. The counter is eight bits wide and
  \<open>i++\<close> wraps from 255 to 0, while the comparison is made on \<open>int\<close>: with a limit
  above 255 the test never fails. The loop is therefore a partial function; \<open>None\<close>
  stands for a loop that never ends.
\<close>

partial_function (option) for_uchar :: "nat \<Rightarrow> (bus \<Rightarrow> bus) \<Rightarrow> u8 \<Rightarrow> bus \<Rightarrow> bus option" where
  "for_uchar limit body i s =
     (if unat i < limit then for_uchar limit body (i + 1) (body s) else Some s)"

declare for_uchar.simps [code]

subsection \<open>apa102.c\<close>

definition apa102_frame :: "config \<Rightarrow> u8 \<Rightarrow> GFX_RGBA_Color \<Rightarrow> bus \<Rightarrow> bus" where
  "apa102_frame cfg flag color s =
     (let temp = flag OR (alpha color AND APA102_MAX_INTENSITY cfg);
          s1 = spi_transfer temp s;
          s2 = spi_transfer (blue color) s1;
          s3 = spi_transfer (green color) s2
      in spi_transfer (red color) s3)"

definition apa102_xof :: "config \<Rightarrow> APA102_Transmission \<Rightarrow> bus \<Rightarrow> bus option" where
  "apa102_xof cfg type s =
     for_uchar (APA102_FRAME_SIZE cfg) (spi_transfer (APA102_Transmission_value cfg type)) 0 s"

text \<open>The macros \<open>APA102_SOF()\<close> and \<open>APA102_EOF()\<close>.\<close>

definition APA102_SOF :: "config \<Rightarrow> bus \<Rightarrow> bus option" where
  "APA102_SOF cfg s = apa102_xof cfg APA102_Transmission_SOF s"

definition APA102_EOF :: "config \<Rightarrow> bus \<Rightarrow> bus option" where
  "APA102_EOF cfg s = apa102_xof cfg APA102_Transmission_EOF s"

definition apa102_init :: "config \<Rightarrow> bus \<Rightarrow> bus option" where
  "apa102_init cfg s =
     do {
       s1 \<leftarrow> APA102_SOF cfg s;
       s2 \<leftarrow> for_uchar (APA102_NUMBER_OF_LEDS cfg)
               (apa102_frame cfg (APA102_ENABLE_FLAG cfg)
                  (GFX_RGBA_Color_literal (APA102_MIN_INTENSITY cfg) 0x00 0x00 0x00)) 0 s1;
       APA102_EOF cfg s2
     }"

definition apa102_led :: "config \<Rightarrow> GFX_RGBA_Color \<Rightarrow> bus \<Rightarrow> bus" where
  "apa102_led cfg color s =
     apa102_frame cfg (APA102_ENABLE_FLAG cfg OR (0x3F AND alpha color)) color s"

definition apa102_leds :: "config \<Rightarrow> GFX_RGBA_Color \<Rightarrow> bus \<Rightarrow> bus option" where
  "apa102_leds cfg color s =
     do {
       s1 \<leftarrow> APA102_SOF cfg s;
       s2 \<leftarrow> for_uchar (APA102_NUMBER_OF_LEDS cfg)
               (apa102_frame cfg (APA102_ENABLE_FLAG cfg OR (0x3F AND alpha color)) color) 0 s1;
       APA102_EOF cfg s2
     }"

definition apa102_led_off :: "config \<Rightarrow> bus \<Rightarrow> bus" where
  "apa102_led_off cfg s =
     (if APA102_POWER_SAVING_AVAILABLE cfg
      then apa102_frame cfg (APA102_SLEEP_FLAG cfg)
             (GFX_RGBA_Color_literal (APA102_MIN_INTENSITY cfg) 0x00 0x00 0x00) s
      else apa102_frame cfg (APA102_START_FLAG cfg)
             (GFX_RGBA_Color_literal (APA102_MIN_INTENSITY cfg) 0x00 0x00 0x00) s)"

definition apa102_leds_off :: "config \<Rightarrow> bus \<Rightarrow> bus option" where
  "apa102_leds_off cfg s =
     do {
       s1 \<leftarrow> APA102_SOF cfg s;
       s2 \<leftarrow> for_uchar (APA102_NUMBER_OF_LEDS cfg) (apa102_led_off cfg) 0 s1;
       APA102_EOF cfg s2
     }"

subsection \<open>The manual sequence of the spec\<close>

text \<open>
  The spec's composability property speaks of a caller who sends the start delimiter,
  calls \<open>setOne\<close> (\<open>apa102_led\<close>) N times and sends the end delimiter. This definition
  follows those words: the N calls are N applications of \<open>apa102_led\<close>, not a loop of
  the driver.
\<close>

definition spec_manual_sequence :: "config \<Rightarrow> GFX_RGBA_Color \<Rightarrow> bus \<Rightarrow> bus option" where
  "spec_manual_sequence cfg color s =
     do {
       s1 \<leftarrow> APA102_SOF cfg s;
       APA102_EOF cfg ((apa102_led cfg color ^^ APA102_NUMBER_OF_LEDS cfg) s1)
     }"

section \<open>Properties\<close>

subsection \<open>The counting loop ends exactly when its limit fits the counter\<close>

lemma for_uchar_run:
  "limit \<le> 255 \<Longrightarrow> unat i \<le> limit \<Longrightarrow>
     for_uchar limit body i s = Some ((body ^^ (limit - unat i)) s)"
proof (induction "limit - unat i" arbitrary: i s)
  case 0
  then show ?case by (subst for_uchar.simps) simp
next
  case (Suc k)
  from Suc.hyps(2) Suc.prems have lt: "unat i < limit" by arith
  with Suc.prems have "unat i < 255" by arith
  then have step: "unat (i + 1) = Suc (unat i)"
    by (simp add: unat_word_ariths)
  have "for_uchar limit body i s = for_uchar limit body (i + 1) (body s)"
    using lt by (subst for_uchar.simps) simp
  also have "\<dots> = Some ((body ^^ (limit - unat (i + 1))) (body s))"
    using Suc.hyps(2) Suc.prems lt step by (intro Suc.hyps(1)) simp_all
  also have "limit - unat (i + 1) = k" using Suc.hyps(2) step by simp
  also have "(body ^^ k) (body s) = (body ^^ (limit - unat i)) s"
    using Suc.hyps(2) [symmetric] by (simp add: funpow_swap1)
  finally show ?case .
qed

lemma for_uchar_from_zero:
  "limit \<le> 255 \<Longrightarrow> for_uchar limit body 0 s = Some ((body ^^ limit) s)"
  using for_uchar_run [of limit 0 body s] by simp

text \<open>
  A loop that returns had a limit within the counter's range: in the fixpoint
  induction the only exit is the failed test \<open>unat i < limit\<close>, and \<open>unat i\<close> is at
  most 255.
\<close>

lemma for_uchar_Some_limit:
  assumes "for_uchar limit body i s = Some y"
  shows "limit \<le> 255"
proof (rule for_uchar.raw_induct [where P = "\<lambda>limit body i s y. limit \<le> 255", OF _ assms])
  fix f :: "nat \<Rightarrow> (bus \<Rightarrow> bus) \<Rightarrow> u8 \<Rightarrow> bus \<Rightarrow> bus option"
  fix limit body i s y
  assume IH: "\<And>limit body i s y. f limit body i s = Some y \<Longrightarrow> limit \<le> 255"
  assume eq: "(if unat i < limit then f limit body (i + 1) (body s) else Some s) = Some y"
  show "limit \<le> 255"
  proof (cases "unat i < limit")
    case True
    with eq have "f limit body (i + 1) (body s) = Some y" by simp
    then show ?thesis by (rule IH)
  next
    case False
    have "unat i < 2 ^ LENGTH(8)" by (rule unsigned_less)
    then have "unat i \<le> 255" by simp
    with False show ?thesis by simp
  qed
qed

lemma for_uchar_diverges:
  "255 < limit \<Longrightarrow> for_uchar limit body i s = None"
proof (rule ccontr)
  assume big: "255 < limit" and "for_uchar limit body i s \<noteq> None"
  then obtain y where "for_uchar limit body i s = Some y" by auto
  then have "limit \<le> 255" by (rule for_uchar_Some_limit)
  with big show False by simp
qed

subsection \<open>Loop bodies that append a fixed block of bytes\<close>

lemma funpow_append_block:
  assumes "\<And>s. body s = s @ w"
  shows "(body ^^ n) s = s @ concat (replicate n w)"
proof (induction n arbitrary: s)
  case 0
  show ?case by simp
next
  case (Suc n)
  have "(body ^^ Suc n) s = (body ^^ n) (body s)" by (simp add: funpow_swap1)
  also have "\<dots> = body s @ concat (replicate n w)" by (rule Suc.IH)
  also have "\<dots> = s @ concat (replicate (Suc n) w)" by (simp add: assms)
  finally show ?case .
qed

lemma spi_transfer_funpow:
  "(spi_transfer b ^^ n) s = s @ replicate n b"
proof -
  have "(spi_transfer b ^^ n) s = s @ concat (replicate n [b])"
    by (rule funpow_append_block) (simp add: spi_transfer_def)
  also have "concat (replicate n [b]) = replicate n b"
    by (induction n) simp_all
  finally show ?thesis .
qed

lemma apa102_frame_eq:
  "apa102_frame cfg f c s =
     s @ [f OR (alpha c AND APA102_MAX_INTENSITY cfg), blue c, green c, red c]"
  by (simp add: apa102_frame_def spi_transfer_def Let_def)

lemma apa102_frame_append:
  "apa102_frame cfg f c s = s @ apa102_frame cfg f c []"
  by (simp add: apa102_frame_eq)

lemma apa102_led_off_append:
  "apa102_led_off cfg s = s @ apa102_led_off cfg []"
  by (simp add: apa102_led_off_def apa102_frame_eq)

subsection \<open>Delimiters and whole-chain transactions\<close>

lemma apa102_xof_run:
  "APA102_FRAME_SIZE cfg \<le> 255 \<Longrightarrow>
     apa102_xof cfg t s =
       Some (s @ replicate (APA102_FRAME_SIZE cfg) (APA102_Transmission_value cfg t))"
  by (simp add: apa102_xof_def for_uchar_from_zero spi_transfer_funpow)

lemma apa102_xof_diverges:
  "255 < APA102_FRAME_SIZE cfg \<Longrightarrow> apa102_xof cfg t s = None"
  by (simp add: apa102_xof_def for_uchar_diverges)

lemma chain_run:
  assumes "APA102_NUMBER_OF_LEDS cfg \<le> 255" and "APA102_FRAME_SIZE cfg \<le> 255"
    and "\<And>s. body s = s @ w"
  shows "do { s1 \<leftarrow> APA102_SOF cfg s;
              s2 \<leftarrow> for_uchar (APA102_NUMBER_OF_LEDS cfg) body 0 s1;
              APA102_EOF cfg s2 } =
         Some (s @ replicate (APA102_FRAME_SIZE cfg) (APA102_SOF_VALUE cfg)
                 @ concat (replicate (APA102_NUMBER_OF_LEDS cfg) w)
                 @ replicate (APA102_FRAME_SIZE cfg) (APA102_EOF_VALUE cfg))"
  using assms(1,2)
  by (simp add: APA102_SOF_def APA102_EOF_def apa102_xof_run for_uchar_from_zero
      funpow_append_block [of body w, OF assms(3)])

lemma chain_diverges:
  assumes "255 < APA102_NUMBER_OF_LEDS cfg \<or> 255 < APA102_FRAME_SIZE cfg"
  shows "do { s1 \<leftarrow> APA102_SOF cfg s;
              s2 \<leftarrow> for_uchar (APA102_NUMBER_OF_LEDS cfg) body 0 s1;
              APA102_EOF cfg s2 } = None"
proof (cases "255 < APA102_FRAME_SIZE cfg")
  case True
  then show ?thesis by (simp add: APA102_SOF_def apa102_xof_diverges)
next
  case False
  with assms have "255 < APA102_NUMBER_OF_LEDS cfg" by simp
  then show ?thesis by (simp add: for_uchar_diverges split: bind_split)
qed

lemma apa102_init_run:
  assumes "APA102_NUMBER_OF_LEDS cfg \<le> 255" and "APA102_FRAME_SIZE cfg \<le> 255"
  shows "apa102_init cfg s =
         Some (s @ replicate (APA102_FRAME_SIZE cfg) (APA102_SOF_VALUE cfg)
                 @ concat (replicate (APA102_NUMBER_OF_LEDS cfg)
                     (apa102_frame cfg (APA102_ENABLE_FLAG cfg)
                        (GFX_RGBA_Color_literal (APA102_MIN_INTENSITY cfg) 0x00 0x00 0x00) []))
                 @ replicate (APA102_FRAME_SIZE cfg) (APA102_EOF_VALUE cfg))"
  unfolding apa102_init_def by (rule chain_run [OF assms]) (rule apa102_frame_append)

lemma apa102_leds_run:
  assumes "APA102_NUMBER_OF_LEDS cfg \<le> 255" and "APA102_FRAME_SIZE cfg \<le> 255"
  shows "apa102_leds cfg c s =
         Some (s @ replicate (APA102_FRAME_SIZE cfg) (APA102_SOF_VALUE cfg)
                 @ concat (replicate (APA102_NUMBER_OF_LEDS cfg)
                     (apa102_frame cfg (APA102_ENABLE_FLAG cfg OR (0x3F AND alpha c)) c []))
                 @ replicate (APA102_FRAME_SIZE cfg) (APA102_EOF_VALUE cfg))"
  unfolding apa102_leds_def by (rule chain_run [OF assms]) (rule apa102_frame_append)

lemma apa102_leds_off_run:
  assumes "APA102_NUMBER_OF_LEDS cfg \<le> 255" and "APA102_FRAME_SIZE cfg \<le> 255"
  shows "apa102_leds_off cfg s =
         Some (s @ replicate (APA102_FRAME_SIZE cfg) (APA102_SOF_VALUE cfg)
                 @ concat (replicate (APA102_NUMBER_OF_LEDS cfg) (apa102_led_off cfg []))
                 @ replicate (APA102_FRAME_SIZE cfg) (APA102_EOF_VALUE cfg))"
  unfolding apa102_leds_off_def by (rule chain_run [OF assms]) (rule apa102_led_off_append)

subsection \<open>Masks and flags\<close>

lemma or_or_and_absorb: "((f OR y) OR x) AND f = (f :: u8)"
  by (auto simp add: bit_eq_iff bit_and_iff bit_or_iff)

lemma length_apa102_frame: "length (apa102_frame cfg f c []) = 4"
  by (simp add: apa102_frame_eq)

lemma length_apa102_led: "length (apa102_led cfg c []) = 4"
  by (simp add: apa102_led_def length_apa102_frame)

lemma length_apa102_led_off: "length (apa102_led_off cfg []) = 4"
  by (simp add: apa102_led_off_def length_apa102_frame)

lemma apa102_led_as_frame:
  "apa102_led cfg c = apa102_frame cfg (APA102_ENABLE_FLAG cfg OR (0x3F AND alpha c)) c"
  by (rule ext) (simp add: apa102_led_def)

lemma mask_1F_of_3F: "(v AND 0x3F) AND 0x1F = v AND (0x1F :: u8)"
proof -
  have "(0x3F :: u8) AND 0x1F = 0x1F" by simp
  then show ?thesis by (simp add: and.assoc)
qed

lemma low5_from_low6:
  assumes "v AND 0x3F = v' AND (0x3F :: u8)"
  shows "v AND 0x1F = v' AND 0x1F"
proof -
  have "v AND 0x1F = (v AND 0x3F) AND 0x1F" by (simp only: mask_1F_of_3F)
  also have "\<dots> = (v' AND 0x3F) AND 0x1F" by (simp only: assms)
  also have "\<dots> = v' AND 0x1F" by (simp only: mask_1F_of_3F)
  finally show ?thesis .
qed

lemma or_and_disjoint:
  assumes "f AND m = (0 :: u8)"
  shows "(f OR x) AND m = x AND m"
proof -
  have "(f OR x) AND m = (f AND m) OR (x AND m)" by (rule bit.conj_disj_distrib2)
  then show ?thesis by (simp add: assms)
qed

lemma led_byte0_top: "((0xE0 OR (0x3F AND a)) OR (a AND 0x1F)) AND 0xE0 = (0xE0 :: u8)"
  by (rule or_or_and_absorb)

lemma led_byte0_low: "((0xE0 OR (0x3F AND a)) OR (a AND 0x1F)) AND 0x1F = a AND (0x1F :: u8)"
proof -
  have "((0xE0 OR (0x3F AND a)) OR (a AND 0x1F)) AND 0x1F
      = ((0xE0 OR (0x3F AND a)) AND 0x1F) OR ((a AND 0x1F) AND 0x1F)"
    by (rule bit.conj_disj_distrib2)
  also have "(0xE0 OR (0x3F AND a)) AND 0x1F = (0x3F AND a) AND (0x1F :: u8)"
    by (rule or_and_disjoint) simp
  also have "(0x3F AND a) AND 0x1F = a AND (0x1F :: u8)"
    using mask_1F_of_3F [of a] by (simp add: and.commute)
  also have "(a AND 0x1F) AND 0x1F = a AND (0x1F :: u8)"
    by (simp add: and.assoc)
  finally show ?thesis by simp
qed

lemma frame_byte0_top:
  assumes "f AND 0x1F = (0 :: u8)"
  shows "(f OR (a AND 0x1F)) AND 0xE0 = f AND 0xE0"
proof -
  have "(f OR (a AND 0x1F)) AND 0xE0 = (f AND 0xE0) OR ((a AND 0x1F) AND 0xE0)"
    by (rule bit.conj_disj_distrib2)
  also have "(a AND 0x1F) AND 0xE0 = (0 :: u8)" by (simp add: and.assoc)
  finally show ?thesis by simp
qed

lemma top_bit_from_flag:
  fixes b :: u8
  assumes "b AND 0xE0 = 0xE0 \<or> b AND 0xE0 = 0xA0"
  shows "bit b 7 \<and> b \<noteq> 0"
proof -
  have "bit (b AND 0xE0) 7" using assms by auto
  then have "bit b 7" by (simp add: bit_and_iff)
  moreover from this have "b \<noteq> 0" by auto
  ultimately show ?thesis by simp
qed


lemma frame_top_bits:
  assumes "APA102_MAX_INTENSITY cfg = 0x1F" and "f AND 0x1F = 0"
  shows "hd (apa102_frame cfg f c []) AND 0xE0 = f AND 0xE0"
    and "hd (apa102_frame cfg f c []) AND 0x1F = alpha c AND 0x1F"
proof -
  have b0: "hd (apa102_frame cfg f c []) = f OR (alpha c AND 0x1F)"
    using assms(1) by (simp add: apa102_frame_eq)
  show "hd (apa102_frame cfg f c []) AND 0xE0 = f AND 0xE0"
    unfolding b0 by (rule frame_byte0_top [OF assms(2)])
  have "(f OR (alpha c AND 0x1F)) AND 0x1F = (alpha c AND 0x1F) AND 0x1F"
    by (rule or_and_disjoint [OF assms(2)])
  then show "hd (apa102_frame cfg f c []) AND 0x1F = alpha c AND 0x1F"
    unfolding b0 by (simp add: and.assoc)
qed

section \<open>The claims\<close>

text \<open>
  C1. For every flag byte \<open>f\<close> and every colour \<open>c\<close>, with the intensity mask at its
  value 0x1F, the frame encoder \<open>apa102_frame\<close> appends exactly four bytes to the bus,
  in this order: \<open>f | (c.alpha & 0x1F)\<close>, \<open>c.blue\<close>, \<open>c.green\<close>, \<open>c.red\<close>.
  Nothing but \<open>f\<close> and \<open>c\<close> enters the four bytes.
\<close>

theorem apa102_frame_bytes:
  assumes "APA102_MAX_INTENSITY cfg = 0x1F"
  shows "apa102_frame cfg f c s = s @ [f OR (alpha c AND 0x1F), blue c, green c, red c]"
  using assms by (simp add: apa102_frame_eq)

theorem apa102_frame_bytes_witness:
  "APA102_MAX_INTENSITY default_config = 0x1F \<and>
   apa102_frame default_config 0xE0 \<lparr>red = 0x10, green = 0x20, blue = 0x30, alpha = 0xA5\<rparr> []
     = [0xE5, 0x30, 0x20, 0x10]"
  using apa102_frame_bytes [of default_config "0xE0"
      "\<lparr>red = 0x10, green = 0x20, blue = 0x30, alpha = 0xA5\<rparr>" "[]"]
  by (simp add: default_config_def)

text \<open>
  C2. The claim expects \<open>apa102_led_off\<close> to transmit \<open>[flag | 0x01, 0, 0, 0]\<close>. The
  compound literal \<open>{APA102_MIN_INTENSITY, 0x00, 0x00, 0x00}\<close> puts the minimum
  intensity into the first member, \<open>red\<close>, and leaves \<open>alpha\<close> at zero. With the
  default configuration the function transmits \<open>[0xE0, 0, 0, 0x01]\<close>, and
  \<open>[0xA0, 0, 0, 0x01]\<close> once power saving is available: neither is the frame
  \<open>[0xE1, 0, 0, 0]\<close> or \<open>[0xA1, 0, 0, 0]\<close> of the claim.
\<close>

theorem apa102_led_off_transmits:
  "apa102_led_off default_config [] = [0xE0, 0x00, 0x00, 0x01] \<and>
   apa102_led_off default_config [] \<noteq>
     [APA102_START_FLAG default_config OR 0x01, 0x00, 0x00, 0x00] \<and>
   apa102_led_off (default_config\<lparr>APA102_POWER_SAVING_AVAILABLE := True\<rparr>) []
     = [0xA0, 0x00, 0x00, 0x01]"
  by (simp add: apa102_led_off_def apa102_frame_eq default_config_def
      GFX_RGBA_Color_literal_def)

text \<open>
  C3. The claim expects every command frame of \<open>apa102_init\<close> to be
  \<open>[enable | 0x01, 0, 0, 0]\<close>. With the default configuration (one LED, four-byte
  delimiters) the function transmits the start delimiter, the frame
  \<open>[0xE0, 0, 0, 0x01]\<close> and the end delimiter: the minimum intensity arrives in the
  red byte, and byte 0 carries intensity zero.
\<close>

theorem apa102_init_default_stream:
  "apa102_init default_config []
     = Some [0x00, 0x00, 0x00, 0x00, 0xE0, 0x00, 0x00, 0x01, 0xFF, 0xFF, 0xFF, 0xFF]"
proof -
  have "apa102_init default_config [] =
        Some (replicate 4 0x00 @ concat (replicate 1 [0xE0, 0x00, 0x00, 0x01]) @ replicate 4 0xFF)"
    using apa102_init_run [of default_config "[]"]
    by (simp add: default_config_def apa102_frame_eq GFX_RGBA_Color_literal_def)
  then show ?thesis by (simp add: numeral_eq_Suc)
qed

text \<open>
  C4 (as amended). For every colour and a chain length of at most 255, the counter's
  range, the manual sequence start delimiter, N calls of \<open>apa102_led\<close>, end delimiter
  leaves the bus exactly as one call of \<open>apa102_leds\<close> does; with a frame size of at
  most 255 as well, that call returns.
\<close>

theorem apa102_leds_composable:
  assumes "APA102_NUMBER_OF_LEDS cfg \<le> 255"
  shows "spec_manual_sequence cfg c s = apa102_leds cfg c s \<and>
         (APA102_FRAME_SIZE cfg \<le> 255 \<longrightarrow> (\<exists>out. apa102_leds cfg c s = Some out))"
proof
  show "spec_manual_sequence cfg c s = apa102_leds cfg c s"
    using assms
    by (simp add: spec_manual_sequence_def apa102_leds_def for_uchar_from_zero
        apa102_led_as_frame)
  show "APA102_FRAME_SIZE cfg \<le> 255 \<longrightarrow> (\<exists>out. apa102_leds cfg c s = Some out)"
    using assms by (simp add: apa102_leds_run)
qed

text \<open>
  The spec's example: three LEDs, colour R=0x10, G=0x20, B=0x30, intensity 0x05. Both
  ways send four zero bytes, three times \<open>[0xE5, 0x30, 0x20, 0x10]\<close>, four 0xFF bytes.
\<close>

theorem apa102_leds_composable_witness:
  "spec_manual_sequence (default_config\<lparr>APA102_NUMBER_OF_LEDS := 3\<rparr>)
       \<lparr>red = 0x10, green = 0x20, blue = 0x30, alpha = 0x05\<rparr> []
     = Some [0x00, 0x00, 0x00, 0x00, 0xE5, 0x30, 0x20, 0x10, 0xE5, 0x30, 0x20, 0x10,
             0xE5, 0x30, 0x20, 0x10, 0xFF, 0xFF, 0xFF, 0xFF] \<and>
   apa102_leds (default_config\<lparr>APA102_NUMBER_OF_LEDS := 3\<rparr>)
       \<lparr>red = 0x10, green = 0x20, blue = 0x30, alpha = 0x05\<rparr> []
     = Some [0x00, 0x00, 0x00, 0x00, 0xE5, 0x30, 0x20, 0x10, 0xE5, 0x30, 0x20, 0x10,
             0xE5, 0x30, 0x20, 0x10, 0xFF, 0xFF, 0xFF, 0xFF]"
proof -
  have "apa102_leds (default_config\<lparr>APA102_NUMBER_OF_LEDS := 3\<rparr>)
       \<lparr>red = 0x10, green = 0x20, blue = 0x30, alpha = 0x05\<rparr> []
     = Some [0x00, 0x00, 0x00, 0x00, 0xE5, 0x30, 0x20, 0x10, 0xE5, 0x30, 0x20, 0x10,
             0xE5, 0x30, 0x20, 0x10, 0xFF, 0xFF, 0xFF, 0xFF]"
    by code_simp
  with apa102_leds_composable [of "default_config\<lparr>APA102_NUMBER_OF_LEDS := 3\<rparr>"
      "\<lparr>red = 0x10, green = 0x20, blue = 0x30, alpha = 0x05\<rparr>" "[]"]
  show ?thesis by (simp add: default_config_def)
qed

text \<open>
  C4 as stated fails for a chain of 256 LEDs: the loop of \<open>apa102_leds\<close> never ends,
  while the 256 calls of the manual sequence and its two delimiters do.
\<close>

theorem apa102_leds_composable_counterexample:
  "apa102_leds (default_config\<lparr>APA102_NUMBER_OF_LEDS := 256\<rparr>)
       \<lparr>red = 0x10, green = 0x20, blue = 0x30, alpha = 0x05\<rparr> [] = None \<and>
   spec_manual_sequence (default_config\<lparr>APA102_NUMBER_OF_LEDS := 256\<rparr>)
       \<lparr>red = 0x10, green = 0x20, blue = 0x30, alpha = 0x05\<rparr> []
     \<noteq> apa102_leds (default_config\<lparr>APA102_NUMBER_OF_LEDS := 256\<rparr>)
       \<lparr>red = 0x10, green = 0x20, blue = 0x30, alpha = 0x05\<rparr> []"
proof -
  let ?cfg = "default_config\<lparr>APA102_NUMBER_OF_LEDS := 256\<rparr>"
  let ?c = "\<lparr>red = 0x10, green = 0x20, blue = 0x30, alpha = 0x05\<rparr> :: GFX_RGBA_Color"
  have leds: "apa102_leds ?cfg ?c [] = None"
    unfolding apa102_leds_def by (rule chain_diverges) (simp add: default_config_def)
  have "APA102_FRAME_SIZE ?cfg \<le> 255" by (simp add: default_config_def)
  then have "spec_manual_sequence ?cfg ?c [] \<noteq> None"
    by (simp add: spec_manual_sequence_def APA102_SOF_def APA102_EOF_def apa102_xof_run)
  with leds show ?thesis by simp
qed

text \<open>
  C5 (as amended). With a chain length and a frame size of at most 255, each of
  \<open>apa102_init\<close>, \<open>apa102_leds\<close> and \<open>apa102_leds_off\<close> returns, and what it has
  added to the bus is one start delimiter (frame-size start markers), then exactly N
  command frames of four bytes each, then one end delimiter (frame-size end markers),
  and nothing else.
\<close>

theorem chain_operations_structure:
  assumes "APA102_NUMBER_OF_LEDS cfg \<le> 255" and "APA102_FRAME_SIZE cfg \<le> 255"
  shows "apa102_init cfg s =
           Some (s @ replicate (APA102_FRAME_SIZE cfg) (APA102_SOF_VALUE cfg)
                   @ concat (replicate (APA102_NUMBER_OF_LEDS cfg)
                       (apa102_frame cfg (APA102_ENABLE_FLAG cfg)
                          (GFX_RGBA_Color_literal (APA102_MIN_INTENSITY cfg) 0x00 0x00 0x00) []))
                   @ replicate (APA102_FRAME_SIZE cfg) (APA102_EOF_VALUE cfg)) \<and>
         apa102_leds cfg c s =
           Some (s @ replicate (APA102_FRAME_SIZE cfg) (APA102_SOF_VALUE cfg)
                   @ concat (replicate (APA102_NUMBER_OF_LEDS cfg) (apa102_led cfg c []))
                   @ replicate (APA102_FRAME_SIZE cfg) (APA102_EOF_VALUE cfg)) \<and>
         apa102_leds_off cfg s =
           Some (s @ replicate (APA102_FRAME_SIZE cfg) (APA102_SOF_VALUE cfg)
                   @ concat (replicate (APA102_NUMBER_OF_LEDS cfg) (apa102_led_off cfg []))
                   @ replicate (APA102_FRAME_SIZE cfg) (APA102_EOF_VALUE cfg)) \<and>
         length (apa102_frame cfg (APA102_ENABLE_FLAG cfg)
                   (GFX_RGBA_Color_literal (APA102_MIN_INTENSITY cfg) 0x00 0x00 0x00) []) = 4 \<and>
         length (apa102_led cfg c []) = 4 \<and>
         length (apa102_led_off cfg []) = 4"
proof (intro conjI)
  show "apa102_init cfg s =
           Some (s @ replicate (APA102_FRAME_SIZE cfg) (APA102_SOF_VALUE cfg)
                   @ concat (replicate (APA102_NUMBER_OF_LEDS cfg)
                       (apa102_frame cfg (APA102_ENABLE_FLAG cfg)
                          (GFX_RGBA_Color_literal (APA102_MIN_INTENSITY cfg) 0x00 0x00 0x00) []))
                   @ replicate (APA102_FRAME_SIZE cfg) (APA102_EOF_VALUE cfg))"
    by (rule apa102_init_run [OF assms])
  show "apa102_leds cfg c s =
           Some (s @ replicate (APA102_FRAME_SIZE cfg) (APA102_SOF_VALUE cfg)
                   @ concat (replicate (APA102_NUMBER_OF_LEDS cfg) (apa102_led cfg c []))
                   @ replicate (APA102_FRAME_SIZE cfg) (APA102_EOF_VALUE cfg))"
    using apa102_leds_run [OF assms] by (simp add: apa102_led_as_frame)
  show "apa102_leds_off cfg s =
           Some (s @ replicate (APA102_FRAME_SIZE cfg) (APA102_SOF_VALUE cfg)
                   @ concat (replicate (APA102_NUMBER_OF_LEDS cfg) (apa102_led_off cfg []))
                   @ replicate (APA102_FRAME_SIZE cfg) (APA102_EOF_VALUE cfg))"
    by (rule apa102_leds_off_run [OF assms])
qed (rule length_apa102_frame length_apa102_led length_apa102_led_off)+

theorem chain_operations_structure_witness:
  "APA102_NUMBER_OF_LEDS (default_config\<lparr>APA102_NUMBER_OF_LEDS := 2\<rparr>) \<le> 255 \<and>
   APA102_FRAME_SIZE (default_config\<lparr>APA102_NUMBER_OF_LEDS := 2\<rparr>) \<le> 255 \<and>
   apa102_init (default_config\<lparr>APA102_NUMBER_OF_LEDS := 2\<rparr>) []
     = Some [0x00, 0x00, 0x00, 0x00, 0xE0, 0x00, 0x00, 0x01, 0xE0, 0x00, 0x00, 0x01,
             0xFF, 0xFF, 0xFF, 0xFF] \<and>
   apa102_leds (default_config\<lparr>APA102_NUMBER_OF_LEDS := 2\<rparr>)
       \<lparr>red = 0x0F, green = 0xF0, blue = 0xFF, alpha = 0x1F\<rparr> []
     = Some [0x00, 0x00, 0x00, 0x00, 0xFF, 0xFF, 0xF0, 0x0F, 0xFF, 0xFF, 0xF0, 0x0F,
             0xFF, 0xFF, 0xFF, 0xFF] \<and>
   apa102_leds_off (default_config\<lparr>APA102_NUMBER_OF_LEDS := 2\<rparr>) []
     = Some [0x00, 0x00, 0x00, 0x00, 0xE0, 0x00, 0x00, 0x01, 0xE0, 0x00, 0x00, 0x01,
             0xFF, 0xFF, 0xFF, 0xFF]"
  using chain_operations_structure [of "default_config\<lparr>APA102_NUMBER_OF_LEDS := 2\<rparr>" "[]"
      "\<lparr>red = 0x0F, green = 0xF0, blue = 0xFF, alpha = 0x1F\<rparr>"]
  by (simp add: default_config_def apa102_frame_eq apa102_led_def apa102_led_off_def
      GFX_RGBA_Color_literal_def numeral_eq_Suc)

text \<open>
  C5 as stated fails for a chain of 256 LEDs: none of the three operations returns, so
  no end delimiter follows the command frames.
\<close>

theorem chain_operations_structure_counterexample:
  "apa102_init (default_config\<lparr>APA102_NUMBER_OF_LEDS := 256\<rparr>) [] = None \<and>
   apa102_leds (default_config\<lparr>APA102_NUMBER_OF_LEDS := 256\<rparr>)
     \<lparr>red = 0x00, green = 0x00, blue = 0x00, alpha = 0x00\<rparr> [] = None \<and>
   apa102_leds_off (default_config\<lparr>APA102_NUMBER_OF_LEDS := 256\<rparr>) [] = None"
  unfolding apa102_init_def apa102_leds_def apa102_leds_off_def
  by (intro conjI chain_diverges) (simp_all add: default_config_def)

text \<open>
  C6. With the intensity mask at 0x1F, what \<open>apa102_frame\<close> sends depends on the
  intensity \<open>v\<close> only through \<open>v & 0x1F\<close>, and what \<open>apa102_led\<close> and
  \<open>apa102_leds\<close> send depends on it only through \<open>v & 0x3F\<close>: two intensities that
  agree after masking give the same bus, and so does replacing the intensity by its
  masked value. Every byte value is an intensity here, since \<open>alpha\<close> is eight bits
  wide.
\<close>

theorem intensity_upper_bits_ignored:
  assumes "APA102_MAX_INTENSITY cfg = 0x1F"
  shows "(v AND 0x1F = v' AND 0x1F \<longrightarrow>
            apa102_frame cfg f (c\<lparr>alpha := v\<rparr>) s = apa102_frame cfg f (c\<lparr>alpha := v'\<rparr>) s) \<and>
         (v AND 0x3F = v' AND 0x3F \<longrightarrow>
            apa102_led cfg (c\<lparr>alpha := v\<rparr>) s = apa102_led cfg (c\<lparr>alpha := v'\<rparr>) s \<and>
            apa102_leds cfg (c\<lparr>alpha := v\<rparr>) s = apa102_leds cfg (c\<lparr>alpha := v'\<rparr>) s) \<and>
         apa102_frame cfg f (c\<lparr>alpha := alpha c AND 0x1F\<rparr>) s = apa102_frame cfg f c s \<and>
         apa102_led cfg (c\<lparr>alpha := alpha c AND 0x3F\<rparr>) s = apa102_led cfg c s \<and>
         apa102_leds cfg (c\<lparr>alpha := alpha c AND 0x3F\<rparr>) s = apa102_leds cfg c s"
proof -
  have frame: "apa102_frame cfg g (c\<lparr>alpha := a\<rparr>) t = apa102_frame cfg g (c\<lparr>alpha := b\<rparr>) t"
    if "a AND 0x1F = b AND 0x1F" for a b :: u8 and g t
    using that assms by (simp add: apa102_frame_eq)
  have body: "apa102_frame cfg (APA102_ENABLE_FLAG cfg OR (0x3F AND a)) (c\<lparr>alpha := a\<rparr>)
            = apa102_frame cfg (APA102_ENABLE_FLAG cfg OR (0x3F AND b)) (c\<lparr>alpha := b\<rparr>)"
    if "a AND 0x3F = b AND 0x3F" for a b :: u8
  proof (rule ext)
    fix t
    have "(0x3F :: u8) AND a = 0x3F AND b" using that by (simp add: and.commute)
    moreover have "a AND 0x1F = b AND 0x1F" using that by (rule low5_from_low6)
    ultimately show "apa102_frame cfg (APA102_ENABLE_FLAG cfg OR (0x3F AND a)) (c\<lparr>alpha := a\<rparr>) t
            = apa102_frame cfg (APA102_ENABLE_FLAG cfg OR (0x3F AND b)) (c\<lparr>alpha := b\<rparr>) t"
      using assms by (simp add: apa102_frame_eq)
  qed
  have led: "apa102_led cfg (c\<lparr>alpha := a\<rparr>) t = apa102_led cfg (c\<lparr>alpha := b\<rparr>) t"
    if "a AND 0x3F = b AND 0x3F" for a b :: u8 and t
    using body [OF that] by (simp add: apa102_led_def)
  have leds: "apa102_leds cfg (c\<lparr>alpha := a\<rparr>) t = apa102_leds cfg (c\<lparr>alpha := b\<rparr>) t"
    if "a AND 0x3F = b AND 0x3F" for a b :: u8 and t
    using body [OF that] by (simp add: apa102_leds_def)
  have m5: "(alpha c AND 0x1F) AND 0x1F = alpha c AND 0x1F" by (simp add: and.assoc)
  have m6: "(alpha c AND 0x3F) AND 0x3F = alpha c AND 0x3F" by (simp add: and.assoc)
  have c_eq: "c\<lparr>alpha := alpha c\<rparr> = c" by simp
  from frame [OF m5, of f s] have f1:
    "apa102_frame cfg f (c\<lparr>alpha := alpha c AND 0x1F\<rparr>) s = apa102_frame cfg f c s"
    by (simp only: c_eq)
  from led [OF m6, of s] have l1:
    "apa102_led cfg (c\<lparr>alpha := alpha c AND 0x3F\<rparr>) s = apa102_led cfg c s"
    by (simp only: c_eq)
  from leds [OF m6, of s] have l2:
    "apa102_leds cfg (c\<lparr>alpha := alpha c AND 0x3F\<rparr>) s = apa102_leds cfg c s"
    by (simp only: c_eq)
  from frame led leds f1 l1 l2 show ?thesis by blast
qed

text \<open>
  Intensities 0xE5 and 0x25 agree in their low six bits, and so in their low five: the
  frames are the same, \<open>[0xE5, 0x30, 0x20, 0x10]\<close>.
\<close>

theorem intensity_upper_bits_ignored_witness:
  "APA102_MAX_INTENSITY default_config = 0x1F \<and>
   (0xE5 :: u8) AND 0x1F = 0x25 AND 0x1F \<and>
   (0xE5 :: u8) AND 0x3F = 0x25 AND 0x3F \<and>
   apa102_frame default_config 0xE0 \<lparr>red = 0x10, green = 0x20, blue = 0x30, alpha = 0xE5\<rparr> []
     = apa102_frame default_config 0xE0
         \<lparr>red = 0x10, green = 0x20, blue = 0x30, alpha = 0x25\<rparr> [] \<and>
   apa102_led default_config \<lparr>red = 0x10, green = 0x20, blue = 0x30, alpha = 0xE5\<rparr> []
     = apa102_led default_config \<lparr>red = 0x10, green = 0x20, blue = 0x30, alpha = 0x25\<rparr> [] \<and>
   apa102_leds default_config \<lparr>red = 0x10, green = 0x20, blue = 0x30, alpha = 0xE5\<rparr> []
     = apa102_leds default_config \<lparr>red = 0x10, green = 0x20, blue = 0x30, alpha = 0x25\<rparr> []"
  using intensity_upper_bits_ignored [of default_config "0xE5" "0x25" "0xE0"
      "\<lparr>red = 0x10, green = 0x20, blue = 0x30, alpha = 0x00\<rparr>" "[]"]
  by (simp add: default_config_def)

text \<open>
  C7 (as amended). With a chain length N and a frame size of at most 255,
  \<open>apa102_init\<close> returns and has added exactly \<open>2 * frameSize + N * 4\<close> bytes to the
  bus: frame-size start markers first, frame-size end markers last, and four bytes for
  each of the N slots between them.
\<close>

theorem apa102_init_length:
  assumes "APA102_NUMBER_OF_LEDS cfg \<le> 255" and "APA102_FRAME_SIZE cfg \<le> 255"
  shows "\<exists>tx. apa102_init cfg s = Some (s @ tx) \<and>
           length tx = 2 * APA102_FRAME_SIZE cfg + APA102_NUMBER_OF_LEDS cfg * 4 \<and>
           take (APA102_FRAME_SIZE cfg) tx
             = replicate (APA102_FRAME_SIZE cfg) (APA102_SOF_VALUE cfg) \<and>
           drop (APA102_FRAME_SIZE cfg + APA102_NUMBER_OF_LEDS cfg * 4) tx
             = replicate (APA102_FRAME_SIZE cfg) (APA102_EOF_VALUE cfg)"
proof -
  let ?w = "apa102_frame cfg (APA102_ENABLE_FLAG cfg)
              (GFX_RGBA_Color_literal (APA102_MIN_INTENSITY cfg) 0x00 0x00 0x00) []"
  let ?mid = "concat (replicate (APA102_NUMBER_OF_LEDS cfg) ?w)"
  let ?tx = "replicate (APA102_FRAME_SIZE cfg) (APA102_SOF_VALUE cfg) @ ?mid
               @ replicate (APA102_FRAME_SIZE cfg) (APA102_EOF_VALUE cfg)"
  have mid: "length ?mid = APA102_NUMBER_OF_LEDS cfg * 4"
    by (simp add: length_concat length_apa102_frame sum_list_replicate)
  have "apa102_init cfg s = Some (s @ ?tx)"
    using apa102_init_run [OF assms] by simp
  moreover have "length ?tx = 2 * APA102_FRAME_SIZE cfg + APA102_NUMBER_OF_LEDS cfg * 4"
    using mid by simp
  moreover have "take (APA102_FRAME_SIZE cfg) ?tx
      = replicate (APA102_FRAME_SIZE cfg) (APA102_SOF_VALUE cfg)"
    by simp
  moreover have "drop (APA102_FRAME_SIZE cfg + APA102_NUMBER_OF_LEDS cfg * 4) ?tx
      = replicate (APA102_FRAME_SIZE cfg) (APA102_EOF_VALUE cfg)"
    using mid by simp
  ultimately show ?thesis by blast
qed

text \<open>The default build: one LED, four-byte delimiters, 12 bytes.\<close>

theorem apa102_init_length_witness:
  "APA102_NUMBER_OF_LEDS default_config \<le> 255 \<and>
   APA102_FRAME_SIZE default_config \<le> 255 \<and>
   (\<exists>tx. apa102_init default_config [] = Some tx \<and>
      length tx = 12 \<and>
      take 4 tx = [0x00, 0x00, 0x00, 0x00] \<and>
      drop 8 tx = [0xFF, 0xFF, 0xFF, 0xFF])"
  using apa102_init_length [of default_config "[]"]
  by (simp add: default_config_def numeral_eq_Suc)

text \<open>
  C7 as stated fails for a frame size of 256: the loop of the start delimiter never
  ends, and \<open>apa102_init\<close> does not return after any number of bytes.
\<close>

theorem apa102_init_length_counterexample:
  "apa102_init (default_config\<lparr>APA102_FRAME_SIZE := 256\<rparr>) [] = None"
  unfolding apa102_init_def by (rule chain_diverges) (simp add: default_config_def)

text \<open>
  C8 (as amended). With a frame size of at most 255, \<open>apa102_xof\<close> with the SOF type
  returns after adding exactly frame-size bytes to the bus, each the start marker, and
  with the EOF type after exactly frame-size bytes, each the end marker. The defaults
  are four bytes, 0x00 and 0xFF.
\<close>

theorem apa102_xof_markers:
  assumes "APA102_FRAME_SIZE cfg \<le> 255"
  shows "apa102_xof cfg APA102_Transmission_SOF s
           = Some (s @ replicate (APA102_FRAME_SIZE cfg) (APA102_SOF_VALUE cfg)) \<and>
         apa102_xof cfg APA102_Transmission_EOF s
           = Some (s @ replicate (APA102_FRAME_SIZE cfg) (APA102_EOF_VALUE cfg)) \<and>
         APA102_FRAME_SIZE default_config = 4 \<and>
         APA102_SOF_VALUE default_config = 0x00 \<and>
         APA102_EOF_VALUE default_config = 0xFF"
  using assms by (simp add: apa102_xof_run default_config_def)

theorem apa102_xof_markers_witness:
  "APA102_FRAME_SIZE default_config \<le> 255 \<and>
   apa102_xof default_config APA102_Transmission_SOF [] = Some [0x00, 0x00, 0x00, 0x00] \<and>
   apa102_xof default_config APA102_Transmission_EOF [] = Some [0xFF, 0xFF, 0xFF, 0xFF]"
  using apa102_xof_markers [of default_config "[]"]
  by (simp add: default_config_def numeral_eq_Suc)

text \<open>
  C8 as stated fails for a frame size of 256: neither delimiter is ever complete.
\<close>

theorem apa102_xof_markers_counterexample:
  "apa102_xof (default_config\<lparr>APA102_FRAME_SIZE := 256\<rparr>) APA102_Transmission_SOF [] = None \<and>
   apa102_xof (default_config\<lparr>APA102_FRAME_SIZE := 256\<rparr>) APA102_Transmission_EOF [] = None"
  by (simp add: apa102_xof_diverges default_config_def)

text \<open>
  C9 (as amended). With the flags and the mask at their default values (enable and
  start 0xE0, sleep 0xA0, mask 0x1F) and in either power-saving configuration, byte 0 of
  every command frame carries the operation's flag in its top three bits and the masked
  intensity of the colour in its low five bits: the top three bits are 111 for
  \<open>apa102_init\<close>, \<open>apa102_led\<close>, \<open>apa102_leds\<close> and for \<open>apa102_led_off\<close> without
  power saving, and 101 for \<open>apa102_led_off\<close> with it. So bit 7 is always set and
  byte 0 is never the start marker 0x00. The whole-chain operations repeat exactly
  these frames. Nothing is said about the end marker: byte 0 can equal it.
\<close>

theorem command_byte_top_bits:
  assumes "APA102_MAX_INTENSITY cfg = 0x1F"
    and "APA102_ENABLE_FLAG cfg = 0xE0"
    and "APA102_START_FLAG cfg = 0xE0"
    and "APA102_SLEEP_FLAG cfg = 0xA0"
    and "APA102_SOF_VALUE cfg = 0x00"
  shows "(hd (apa102_frame cfg (APA102_ENABLE_FLAG cfg)
               (GFX_RGBA_Color_literal (APA102_MIN_INTENSITY cfg) 0x00 0x00 0x00) [])
            AND 0xE0 = 0xE0 \<and>
          hd (apa102_frame cfg (APA102_ENABLE_FLAG cfg)
               (GFX_RGBA_Color_literal (APA102_MIN_INTENSITY cfg) 0x00 0x00 0x00) [])
            AND 0x1F
            = alpha (GFX_RGBA_Color_literal (APA102_MIN_INTENSITY cfg) 0x00 0x00 0x00) AND 0x1F \<and>
          bit (hd (apa102_frame cfg (APA102_ENABLE_FLAG cfg)
               (GFX_RGBA_Color_literal (APA102_MIN_INTENSITY cfg) 0x00 0x00 0x00) [])) 7 \<and>
          hd (apa102_frame cfg (APA102_ENABLE_FLAG cfg)
               (GFX_RGBA_Color_literal (APA102_MIN_INTENSITY cfg) 0x00 0x00 0x00) [])
            \<noteq> APA102_SOF_VALUE cfg) \<and>
         (hd (apa102_led cfg c []) AND 0xE0 = 0xE0 \<and>
          hd (apa102_led cfg c []) AND 0x1F = alpha c AND 0x1F \<and>
          bit (hd (apa102_led cfg c [])) 7 \<and>
          hd (apa102_led cfg c []) \<noteq> APA102_SOF_VALUE cfg) \<and>
         (hd (apa102_led_off cfg []) AND 0xE0
            = (if APA102_POWER_SAVING_AVAILABLE cfg then 0xA0 else 0xE0) \<and>
          hd (apa102_led_off cfg []) AND 0x1F
            = alpha (GFX_RGBA_Color_literal (APA102_MIN_INTENSITY cfg) 0x00 0x00 0x00) AND 0x1F \<and>
          bit (hd (apa102_led_off cfg [])) 7 \<and>
          hd (apa102_led_off cfg []) \<noteq> APA102_SOF_VALUE cfg) \<and>
         (APA102_NUMBER_OF_LEDS cfg \<le> 255 \<and> APA102_FRAME_SIZE cfg \<le> 255 \<longrightarrow>
            apa102_init cfg s =
              Some (s @ replicate (APA102_FRAME_SIZE cfg) (APA102_SOF_VALUE cfg)
                      @ concat (replicate (APA102_NUMBER_OF_LEDS cfg)
                          (apa102_frame cfg (APA102_ENABLE_FLAG cfg)
                             (GFX_RGBA_Color_literal (APA102_MIN_INTENSITY cfg) 0x00 0x00 0x00) []))
                      @ replicate (APA102_FRAME_SIZE cfg) (APA102_EOF_VALUE cfg)) \<and>
            apa102_leds cfg c s =
              Some (s @ replicate (APA102_FRAME_SIZE cfg) (APA102_SOF_VALUE cfg)
                      @ concat (replicate (APA102_NUMBER_OF_LEDS cfg) (apa102_led cfg c []))
                      @ replicate (APA102_FRAME_SIZE cfg) (APA102_EOF_VALUE cfg)) \<and>
            apa102_leds_off cfg s =
              Some (s @ replicate (APA102_FRAME_SIZE cfg) (APA102_SOF_VALUE cfg)
                      @ concat (replicate (APA102_NUMBER_OF_LEDS cfg) (apa102_led_off cfg []))
                      @ replicate (APA102_FRAME_SIZE cfg) (APA102_EOF_VALUE cfg)))"
proof -
  let ?lit = "GFX_RGBA_Color_literal (APA102_MIN_INTENSITY cfg) 0x00 0x00 0x00"
  let ?init = "hd (apa102_frame cfg (APA102_ENABLE_FLAG cfg) ?lit [])"
  let ?led = "hd (apa102_led cfg c [])"
  let ?off = "hd (apa102_led_off cfg [])"
  have init_top: "?init AND 0xE0 = 0xE0"
    using frame_top_bits(1) [OF assms(1), of "0xE0" ?lit] by (simp add: assms(2))
  have init_low: "?init AND 0x1F = alpha ?lit AND 0x1F"
    using frame_top_bits(2) [OF assms(1), of "0xE0" ?lit] by (simp add: assms(2))
  have led_b0: "?led = (0xE0 OR (0x3F AND alpha c)) OR (alpha c AND 0x1F)"
    using assms(1,2) by (simp add: apa102_led_def apa102_frame_eq)
  have led_top: "?led AND 0xE0 = 0xE0"
    unfolding led_b0 by (rule led_byte0_top)
  have led_low: "?led AND 0x1F = alpha c AND 0x1F"
    unfolding led_b0 by (rule led_byte0_low)
  have off_top: "?off AND 0xE0 = (if APA102_POWER_SAVING_AVAILABLE cfg then 0xA0 else 0xE0)"
    using frame_top_bits(1) [OF assms(1), of "0xE0" ?lit]
      frame_top_bits(1) [OF assms(1), of "0xA0" ?lit]
    by (simp add: apa102_led_off_def assms(3,4))
  have off_low: "?off AND 0x1F = alpha ?lit AND 0x1F"
    using frame_top_bits(2) [OF assms(1), of "0xE0" ?lit]
      frame_top_bits(2) [OF assms(1), of "0xA0" ?lit]
    by (simp add: apa102_led_off_def assms(3,4))
  have init_bit: "bit ?init 7 \<and> ?init \<noteq> 0"
    by (rule top_bit_from_flag) (simp add: init_top)
  have led_bit: "bit ?led 7 \<and> ?led \<noteq> 0"
    by (rule top_bit_from_flag) (simp add: led_top)
  have off_bit: "bit ?off 7 \<and> ?off \<noteq> 0"
    by (rule top_bit_from_flag) (simp add: off_top)
  have streams: "apa102_init cfg s =
              Some (s @ replicate (APA102_FRAME_SIZE cfg) (APA102_SOF_VALUE cfg)
                      @ concat (replicate (APA102_NUMBER_OF_LEDS cfg)
                          (apa102_frame cfg (APA102_ENABLE_FLAG cfg) ?lit []))
                      @ replicate (APA102_FRAME_SIZE cfg) (APA102_EOF_VALUE cfg)) \<and>
            apa102_leds cfg c s =
              Some (s @ replicate (APA102_FRAME_SIZE cfg) (APA102_SOF_VALUE cfg)
                      @ concat (replicate (APA102_NUMBER_OF_LEDS cfg) (apa102_led cfg c []))
                      @ replicate (APA102_FRAME_SIZE cfg) (APA102_EOF_VALUE cfg)) \<and>
            apa102_leds_off cfg s =
              Some (s @ replicate (APA102_FRAME_SIZE cfg) (APA102_SOF_VALUE cfg)
                      @ concat (replicate (APA102_NUMBER_OF_LEDS cfg) (apa102_led_off cfg []))
                      @ replicate (APA102_FRAME_SIZE cfg) (APA102_EOF_VALUE cfg))"
    if n: "APA102_NUMBER_OF_LEDS cfg \<le> 255" and fs: "APA102_FRAME_SIZE cfg \<le> 255"
  proof (intro conjI)
    show "apa102_init cfg s =
              Some (s @ replicate (APA102_FRAME_SIZE cfg) (APA102_SOF_VALUE cfg)
                      @ concat (replicate (APA102_NUMBER_OF_LEDS cfg)
                          (apa102_frame cfg (APA102_ENABLE_FLAG cfg) ?lit []))
                      @ replicate (APA102_FRAME_SIZE cfg) (APA102_EOF_VALUE cfg))"
      by (rule apa102_init_run [OF n fs])
    show "apa102_leds cfg c s =
              Some (s @ replicate (APA102_FRAME_SIZE cfg) (APA102_SOF_VALUE cfg)
                      @ concat (replicate (APA102_NUMBER_OF_LEDS cfg) (apa102_led cfg c []))
                      @ replicate (APA102_FRAME_SIZE cfg) (APA102_EOF_VALUE cfg))"
      using apa102_leds_run [OF n fs] by (simp add: apa102_led_as_frame)
    show "apa102_leds_off cfg s =
              Some (s @ replicate (APA102_FRAME_SIZE cfg) (APA102_SOF_VALUE cfg)
                      @ concat (replicate (APA102_NUMBER_OF_LEDS cfg) (apa102_led_off cfg []))
                      @ replicate (APA102_FRAME_SIZE cfg) (APA102_EOF_VALUE cfg))"
      by (rule apa102_leds_off_run [OF n fs])
  qed
  from init_top init_low init_bit led_top led_low led_bit off_top off_low off_bit streams
  show ?thesis unfolding assms(5) by blast
qed

text \<open>
  Both power-saving configurations of the default build. Intensity 0x45 leaves 0x05 in
  the low five bits under 0xE0; the sleep frame starts with 0xA0.
\<close>

theorem command_byte_top_bits_witness:
  "APA102_MAX_INTENSITY default_config = 0x1F \<and>
   APA102_ENABLE_FLAG default_config = 0xE0 \<and>
   APA102_START_FLAG default_config = 0xE0 \<and>
   APA102_SLEEP_FLAG default_config = 0xA0 \<and>
   APA102_SOF_VALUE default_config = 0x00 \<and>
   APA102_NUMBER_OF_LEDS default_config \<le> 255 \<and>
   APA102_FRAME_SIZE default_config \<le> 255 \<and>
   hd (apa102_led default_config \<lparr>red = 0x10, green = 0x20, blue = 0x30, alpha = 0x45\<rparr> [])
     AND 0xE0 = 0xE0 \<and>
   hd (apa102_led default_config \<lparr>red = 0x10, green = 0x20, blue = 0x30, alpha = 0x45\<rparr> [])
     AND 0x1F = 0x05 \<and>
   hd (apa102_led_off default_config []) AND 0xE0 = 0xE0 \<and>
   hd (apa102_led_off (default_config\<lparr>APA102_POWER_SAVING_AVAILABLE := True\<rparr>) [])
     AND 0xE0 = 0xA0 \<and>
   bit (hd (apa102_led_off (default_config\<lparr>APA102_POWER_SAVING_AVAILABLE := True\<rparr>) [])) 7 \<and>
   hd (apa102_led_off (default_config\<lparr>APA102_POWER_SAVING_AVAILABLE := True\<rparr>) []) \<noteq> 0x00 \<and>
   apa102_leds_off (default_config\<lparr>APA102_POWER_SAVING_AVAILABLE := True\<rparr>) []
     = Some (replicate 4 0x00
             @ concat (replicate 1
                 (apa102_led_off (default_config\<lparr>APA102_POWER_SAVING_AVAILABLE := True\<rparr>) []))
             @ replicate 4 0xFF)"
  using command_byte_top_bits [of default_config
      "\<lparr>red = 0x10, green = 0x20, blue = 0x30, alpha = 0x45\<rparr>" "[]"]
    command_byte_top_bits [of "default_config\<lparr>APA102_POWER_SAVING_AVAILABLE := True\<rparr>"
      "\<lparr>red = 0x10, green = 0x20, blue = 0x30, alpha = 0x45\<rparr>" "[]"]
  by (simp add: default_config_def)

text \<open>
  C9 as stated fails in two ways. At intensity 0x1F byte 0 of \<open>apa102_led\<close> is 0xFF,
  the end marker, and a white frame at that intensity is byte for byte the end
  delimiter. With power saving, byte 0 of \<open>apa102_led_off\<close> is 0xA0, whose bit 6 is
  clear: the top bits are not all set.
\<close>

theorem command_byte_top_bits_counterexample:
  "hd (apa102_led default_config \<lparr>red = 0xFF, green = 0xFF, blue = 0xFF, alpha = 0x1F\<rparr> [])
     = APA102_EOF_VALUE default_config \<and>
   APA102_EOF default_config []
     = Some (apa102_led default_config
               \<lparr>red = 0xFF, green = 0xFF, blue = 0xFF, alpha = 0x1F\<rparr> []) \<and>
   \<not> bit (hd (apa102_led_off (default_config\<lparr>APA102_POWER_SAVING_AVAILABLE := True\<rparr>) [])) 6"
proof -
  have led: "apa102_led default_config
               \<lparr>red = 0xFF, green = 0xFF, blue = 0xFF, alpha = 0x1F\<rparr> []
             = [0xFF, 0xFF, 0xFF, 0xFF]"
    by (simp add: apa102_led_def apa102_frame_eq default_config_def)
  have eof: "APA102_EOF default_config [] = Some [0xFF, 0xFF, 0xFF, 0xFF]"
    using apa102_xof_run [of default_config APA102_Transmission_EOF "[]"]
    by (simp add: APA102_EOF_def default_config_def numeral_eq_Suc)
  have off: "apa102_led_off (default_config\<lparr>APA102_POWER_SAVING_AVAILABLE := True\<rparr>) []
             = [0xA0, 0x00, 0x00, 0x01]"
    by (simp add: apa102_led_off_def apa102_frame_eq default_config_def
        GFX_RGBA_Color_literal_def)
  show ?thesis unfolding led eof off by (simp add: default_config_def)
qed

text \<open>
  C10. Without power saving, and with the start flag equal to the enable flag (both are
  0xE0 by default), \<open>apa102_leds_off\<close> leaves the bus exactly as \<open>apa102_init\<close> does:
  both loops send the frame of the same flag and the same literal colour. With a chain
  length and a frame size of at most 255 both return.
\<close>

theorem apa102_leds_off_eq_init:
  assumes "\<not> APA102_POWER_SAVING_AVAILABLE cfg"
    and "APA102_START_FLAG cfg = APA102_ENABLE_FLAG cfg"
  shows "apa102_leds_off cfg s = apa102_init cfg s \<and>
         (APA102_NUMBER_OF_LEDS cfg \<le> 255 \<and> APA102_FRAME_SIZE cfg \<le> 255 \<longrightarrow>
            (\<exists>out. apa102_init cfg s = Some out))"
proof
  have "apa102_led_off cfg = apa102_frame cfg (APA102_ENABLE_FLAG cfg)
          (GFX_RGBA_Color_literal (APA102_MIN_INTENSITY cfg) 0x00 0x00 0x00)"
    using assms by (intro ext) (simp add: apa102_led_off_def)
  then show "apa102_leds_off cfg s = apa102_init cfg s"
    by (simp add: apa102_leds_off_def apa102_init_def)
  show "APA102_NUMBER_OF_LEDS cfg \<le> 255 \<and> APA102_FRAME_SIZE cfg \<le> 255 \<longrightarrow>
            (\<exists>out. apa102_init cfg s = Some out)"
    by (simp add: apa102_init_run)
qed

theorem apa102_leds_off_eq_init_witness:
  "\<not> APA102_POWER_SAVING_AVAILABLE default_config \<and>
   APA102_START_FLAG default_config = 0xE0 \<and>
   APA102_ENABLE_FLAG default_config = 0xE0 \<and>
   APA102_NUMBER_OF_LEDS default_config \<le> 255 \<and>
   APA102_FRAME_SIZE default_config \<le> 255 \<and>
   apa102_leds_off default_config [] = apa102_init default_config [] \<and>
   (\<exists>out. apa102_init default_config [] = Some out)"
  using apa102_leds_off_eq_init [of default_config "[]"]
  by (simp add: default_config_def)

end
